theory Spec2Isabelle
  imports Complex_Main "HOL-Library.Log_Nat"
begin

section \<open>Python floats\<close>

text \<open>
  A Python \<open>float\<close> is an IEEE 754 binary64 value. A finite value is modelled by the
  rational number it denotes, next to the two infinities and NaN. The sign of a zero is
  not modelled: Python's \<open>==\<close> identifies \<open>0.0\<close> and \<open>-0.0\<close>, and none of the
  operations of \<open>app.py\<close> modelled below tells them apart (\<open>.2f\<close> formatting is only
  applied to quotients of magnitude at least 1, \<open>int\<close> maps both zeros to \<open>0\<close>). The
  response carries floats as values: the text that JSON prints for them is outside the
  model.
\<close>

datatype pyfloat = Fin rat | PInf | NInf | NaN

fun fneg :: "pyfloat \<Rightarrow> pyfloat" where
  "fneg (Fin q) = Fin (- q)"
| "fneg PInf = NInf"
| "fneg NInf = PInf"
| "fneg NaN = NaN"

text \<open>Rounding a non-negative rational to the nearest integer, ties to even.\<close>

definition round_half_even :: "rat \<Rightarrow> int" where
  "round_half_even x =
     (let f = \<lfloor>x\<rfloor>; d = x - of_int f
      in if d < 1 / 2 then f else if 1 / 2 < d then f + 1 else if even f then f else f + 1)"

definition pow2 :: "int \<Rightarrow> rat" where
  "pow2 e = (if 0 \<le> e then 2 ^ nat e else 1 / 2 ^ nat (- e))"

text \<open>The binary exponent of a positive rational: \<open>2^e \<le> q < 2^(e+1)\<close>.\<close>

definition ilog2 :: "rat \<Rightarrow> int" where
  "ilog2 q = (let (a, b) = quotient_of q; k = bitlen a - bitlen b
              in if pow2 k \<le> q then k else k - 1)"

text \<open>
  Round to nearest, ties to even, into binary64: 53 significant bits, least normal
  exponent \<open>-1022\<close> (below it the spacing stays \<open>2^-1074\<close>), overflow to infinity
  when the rounded magnitude reaches \<open>2^1024\<close>, that is, when its binary exponent
  exceeds 1023. \<open>rn_mag\<close> rounds a magnitude, \<open>rn\<close> a signed value.
\<close>

definition rn_mag :: "rat \<Rightarrow> pyfloat" where
  "rn_mag q =
     (if q = 0 then Fin 0
      else let e = max (ilog2 q) (- 1022);
               ulp = pow2 (e - 52);
               r = of_int (round_half_even (q / ulp)) * ulp
           in if 1023 < ilog2 r then PInf else Fin r)"

definition rn :: "rat \<Rightarrow> pyfloat" where
  "rn q = (if q < 0 then fneg (rn_mag (- q)) else rn_mag q)"

text \<open>A rational is a binary64 value when rounding leaves it unchanged.\<close>

definition is_binary64 :: "rat \<Rightarrow> bool" where
  "is_binary64 q \<longleftrightarrow> rn q = Fin q"

datatype pyexc =
    ValueError string
  | OverflowError string
  | ZeroDivisionError string
  | OtherException string

fun is_ValueError :: "pyexc \<Rightarrow> bool" where
  "is_ValueError (ValueError _) = True"
| "is_ValueError _ = False"

fun str_exc :: "pyexc \<Rightarrow> string" where
  "str_exc (ValueError m) = m"
| "str_exc (OverflowError m) = m"
| "str_exc (ZeroDivisionError m) = m"
| "str_exc (OtherException m) = m"

text \<open>Python's \<open>==\<close> and \<open>>=\<close> on floats: every comparison with NaN is false.\<close>

fun float_eq :: "pyfloat \<Rightarrow> pyfloat \<Rightarrow> bool" where
  "float_eq NaN _ = False"
| "float_eq _ NaN = False"
| "float_eq x y = (x = y)"

fun float_ge_int :: "pyfloat \<Rightarrow> int \<Rightarrow> bool" where
  "float_ge_int (Fin q) n = (of_int n \<le> q)"
| "float_ge_int PInf n = True"
| "float_ge_int NInf n = False"
| "float_ge_int NaN n = False"

fun float_abs :: "pyfloat \<Rightarrow> pyfloat" where
  "float_abs (Fin q) = Fin \<bar>q\<bar>"
| "float_abs PInf = PInf"
| "float_abs NInf = PInf"
| "float_abs NaN = NaN"

fun float_sub :: "pyfloat \<Rightarrow> pyfloat \<Rightarrow> pyfloat" where
  "float_sub NaN _ = NaN"
| "float_sub _ NaN = NaN"
| "float_sub (Fin a) (Fin b) = rn (a - b)"
| "float_sub PInf PInf = NaN"
| "float_sub NInf NInf = NaN"
| "float_sub PInf _ = PInf"
| "float_sub NInf _ = NInf"
| "float_sub (Fin a) PInf = NInf"
| "float_sub (Fin a) NInf = PInf"

fun float_mul :: "pyfloat \<Rightarrow> pyfloat \<Rightarrow> pyfloat" where
  "float_mul NaN _ = NaN"
| "float_mul _ NaN = NaN"
| "float_mul (Fin a) (Fin b) = rn (a * b)"
| "float_mul (Fin a) PInf = (if a = 0 then NaN else if 0 < a then PInf else NInf)"
| "float_mul (Fin a) NInf = (if a = 0 then NaN else if 0 < a then NInf else PInf)"
| "float_mul PInf (Fin b) = (if b = 0 then NaN else if 0 < b then PInf else NInf)"
| "float_mul NInf (Fin b) = (if b = 0 then NaN else if 0 < b then NInf else PInf)"
| "float_mul PInf PInf = PInf"
| "float_mul PInf NInf = NInf"
| "float_mul NInf PInf = NInf"
| "float_mul NInf NInf = PInf"

text \<open>IEEE division by a divisor that is not zero.\<close>

fun ieee_div :: "pyfloat \<Rightarrow> pyfloat \<Rightarrow> pyfloat" where
  "ieee_div NaN _ = NaN"
| "ieee_div _ NaN = NaN"
| "ieee_div (Fin a) (Fin b) = rn (a / b)"
| "ieee_div (Fin a) _ = Fin 0"
| "ieee_div PInf (Fin b) = (if 0 \<le> b then PInf else NInf)"
| "ieee_div NInf (Fin b) = (if 0 \<le> b then NInf else PInf)"
| "ieee_div _ _ = NaN"

text \<open>Python's \<open>/\<close> on floats raises on a zero divisor before dividing.\<close>

definition float_truediv :: "pyfloat \<Rightarrow> pyfloat \<Rightarrow> pyexc + pyfloat" where
  "float_truediv x y =
     (if float_eq y (Fin 0) then Inl (ZeroDivisionError ''float division by zero'')
      else Inr (ieee_div x y))"

text \<open>\<open>int(x)\<close> truncates toward zero and raises on NaN and on the infinities.\<close>

fun py_int :: "pyfloat \<Rightarrow> pyexc + int" where
  "py_int (Fin q) = Inr (if 0 \<le> q then \<lfloor>q\<rfloor> else \<lceil>q\<rceil>)"
| "py_int NaN = Inl (ValueError ''cannot convert float NaN to integer'')"
| "py_int _ = Inl (OverflowError ''cannot convert float infinity to integer'')"

text \<open>
  \<open>round(x, ndigits)\<close> for a small \<open>ndigits \<ge> 0\<close> (the code uses 4): NaN and the
  infinities round to themselves;
  a finite value is converted to the nearest decimal with \<open>ndigits\<close> fraction digits
  (ties of the exact binary value to even) and that decimal is read back as the nearest
  float; \<open>OverflowError\<close> when the decimal is out of the float range.
\<close>

fun py_round :: "pyfloat \<Rightarrow> nat \<Rightarrow> pyexc + pyfloat" where
  "py_round (Fin q) ndigits =
     (let m = round_half_even (\<bar>q\<bar> * 10 ^ ndigits);
          r = rn_mag (of_int m / 10 ^ ndigits)
      in if r = PInf then Inl (OverflowError ''rounded value too large to represent'')
         else Inr (if q < 0 then fneg r else r))"
| "py_round x ndigits = Inr x"

section \<open>Decimal output\<close>

definition digit :: "int \<Rightarrow> char" where
  "digit d = char_of (48 + d)"

text \<open>The decimal digits of a non-negative integer.\<close>

function show_nat :: "int \<Rightarrow> string" where
  "show_nat n = (if n < 10 then [digit n] else show_nat (n div 10) @ [digit (n mod 10)])"
  by pat_completeness auto
termination
  by (relation "measure nat") auto

declare show_nat.simps [simp del]

text \<open>\<open>f"{i}"\<close> for a Python \<open>int\<close>.\<close>

definition show_int :: "int \<Rightarrow> string" where
  "show_int i = (if i < 0 then CHR ''-'' # show_nat (- i) else show_nat i)"

text \<open>\<open>"%0wd" % n\<close> for a non-negative integer.\<close>

definition zpad :: "nat \<Rightarrow> int \<Rightarrow> string" where
  "zpad w n = replicate (w - length (show_nat n)) CHR ''0'' @ show_nat n"

text \<open>
  \<open>f"{x:.2f}"\<close>: the decimal with two fraction digits nearest to the exact value of
  \<open>x\<close>, ties to even, on sign and magnitude.
\<close>

fun fmt_2f :: "pyfloat \<Rightarrow> string" where
  "fmt_2f (Fin q) =
     (let n = round_half_even (\<bar>q\<bar> * 100)
      in (if q < 0 then ''-'' else []) @ show_nat (n div 100) @ ''.'' @ zpad 2 (n mod 100))"
| "fmt_2f PInf = ''inf''"
| "fmt_2f NInf = ''-inf''"
| "fmt_2f NaN = ''nan''"

section \<open>\<open>_format_volume\<close>\<close>

definition format_volume :: "pyfloat \<Rightarrow> pyexc + string" where
  "format_volume volume =
     (let abs_volume = float_abs volume
      in if float_ge_int abs_volume 1000000000 then
           (case float_truediv volume (Fin 1000000000) of
              Inl e \<Rightarrow> Inl e | Inr x \<Rightarrow> Inr (fmt_2f x @ ''B''))
         else if float_ge_int abs_volume 1000000 then
           (case float_truediv volume (Fin 1000000) of
              Inl e \<Rightarrow> Inl e | Inr x \<Rightarrow> Inr (fmt_2f x @ ''M''))
         else if float_ge_int abs_volume 1000 then
           (case float_truediv volume (Fin 1000) of
              Inl e \<Rightarrow> Inl e | Inr x \<Rightarrow> Inr (fmt_2f x @ ''K''))
         else
           (case py_int volume of
              Inl e \<Rightarrow> Inl e | Inr i \<Rightarrow> Inr (show_int i)))"

section \<open>Datetimes\<close>

text \<open>
  A \<open>datetime\<close> with its calendar fields; \<open>tzinfo\<close> is \<open>None\<close> for a naive value and
  otherwise the offset from UTC, in seconds, that the zone reports for this value.
\<close>

record pydatetime =
  year :: int
  month :: int
  day :: int
  hour :: int
  minute :: int
  second :: int
  microsecond :: int
  tzinfo :: "int option"

definition utc :: int where
  "utc = 0"

text \<open>\<open>datetime.isoformat()\<close> with its default separator and \<open>timespec\<close>.\<close>

definition format_offset :: "int option \<Rightarrow> string" where
  "format_offset off =
     (case off of
        None \<Rightarrow> []
      | Some s \<Rightarrow>
          (let a = \<bar>s\<bar>; hh = a div 3600; mm = (a mod 3600) div 60; ss = a mod 60
           in (if s < 0 then ''-'' else ''+'') @ zpad 2 hh @ '':'' @ zpad 2 mm
              @ (if ss \<noteq> 0 then '':'' @ zpad 2 ss else [])))"

definition isoformat :: "pydatetime \<Rightarrow> string" where
  "isoformat d =
     zpad 4 (year d) @ ''-'' @ zpad 2 (month d) @ ''-'' @ zpad 2 (day d) @ ''T''
     @ zpad 2 (hour d) @ '':'' @ zpad 2 (minute d) @ '':'' @ zpad 2 (second d)
     @ (if microsecond d \<noteq> 0 then ''.'' @ zpad 6 (microsecond d) else [])
     @ format_offset (tzinfo d)"

section \<open>Strings\<close>

text \<open>
  A Python \<open>str\<close> is modelled by the bytes of its UTF-8 encoding: an ASCII character is
  one byte below 128, and every other character is a sequence of bytes from 128 on.
  \<open>str.upper()\<close> maps each character on its own. On an ASCII character it sends the
  letters \<open>a\<close> to \<open>z\<close> to \<open>A\<close> to \<open>Z\<close> and leaves the rest. What it does to the
  other characters is laid down in the Unicode tables of the Python runtime, which are not
  part of this program: they are the parameter \<open>unicode_upper\<close>, which takes the bytes of a
  maximal run of non-ASCII characters to the bytes of their upper-case mapping (one
  character may become several, as sharp s becomes \<open>SS\<close>).
\<close>

definition is_ascii :: "char \<Rightarrow> bool" where
  "is_ascii c \<longleftrightarrow> (of_char c :: nat) < 128"

definition ascii_lower :: "char \<Rightarrow> bool" where
  "ascii_lower c \<longleftrightarrow> 97 \<le> (of_char c :: nat) \<and> (of_char c :: nat) \<le> 122"

definition upper_char :: "char \<Rightarrow> char" where
  "upper_char c = (if ascii_lower c then char_of ((of_char c :: nat) - 32) else c)"

function upper :: "(string \<Rightarrow> string) \<Rightarrow> string \<Rightarrow> string" where
  "upper unicode_upper [] = []"
| "upper unicode_upper (c # cs) =
     (if is_ascii c then upper_char c # upper unicode_upper cs
      else unicode_upper (c # takeWhile (\<lambda>x. \<not> is_ascii x) cs)
           @ upper unicode_upper (dropWhile (\<lambda>x. \<not> is_ascii x) cs))"
  by pat_completeness auto
termination
  by (relation "measure (\<lambda>(t, s). length s)") (auto simp: less_Suc_eq_le length_dropWhile_le)

section \<open>The provider and \<open>_fetch_quote\<close>\<close>

text \<open>
  One row of the frame that \<open>yf.Ticker(symbol).history(period='2d')\<close> returns: the
  \<open>Close\<close> and \<open>Volume\<close> columns as floats and the index entry as a datetime. The
  provider is a parameter: asked for a symbol it raises an exception or returns the rows,
  oldest first.
\<close>

record bar =
  Close :: pyfloat
  Volume :: pyfloat
  Index :: pydatetime

type_synonym provider = "string \<Rightarrow> pyexc + bar list"

definition quoted :: "string \<Rightarrow> string" where
  "quoted s = [CHR 0x27] @ s @ [CHR 0x27]"

definition fetch_quote ::
  "provider \<Rightarrow> string \<Rightarrow> pyexc + (pyfloat \<times> pyfloat \<times> pydatetime \<times> pyfloat)" where
  "fetch_quote history symbol =
     (case history symbol of
        Inl e \<Rightarrow> Inl e
      | Inr hist \<Rightarrow>
          if hist = [] then
            Inl (ValueError (''No price data available for symbol '' @ quoted symbol @ ''.''))
          else
            let last_close = Close (last hist);
                prev_close = (if length hist > 1 then Close (hist ! (length hist - 2))
                              else last_close);
                timestamp = Index (last hist);
                timestamp = (if tzinfo timestamp = None
                             then timestamp\<lparr>tzinfo := Some utc\<rparr> else timestamp);
                volume = Volume (last hist)
            in if float_eq prev_close (Fin 0) then
                 Inl (ValueError (''Previous close is zero for symbol '' @ quoted symbol @ ''.''))
               else Inr (last_close, prev_close, timestamp, volume))"

section \<open>\<open>_build_response\<close> and \<open>get_quote\<close>\<close>

datatype jvalue = JStr string | JFloat pyfloat | JInt int

type_synonym jdict = "(string \<times> jvalue) list"

text \<open>
  \<open>now\<close> is the reading of the clock, \<open>datetime.now\<close>, which the code takes in UTC.
  The log line is not modelled: it has no part in the response.
\<close>

definition build_response ::
  "(string \<Rightarrow> string) \<Rightarrow> provider \<Rightarrow> pydatetime \<Rightarrow> string \<Rightarrow> pyexc + jdict" where
  "build_response unicode_upper history now symbol0 =
     (let symbol = upper unicode_upper symbol0 in
      case fetch_quote history symbol of
        Inl e \<Rightarrow> Inl e
      | Inr (last_price, prev_close, timestamp, volume) \<Rightarrow>
      (case float_truediv (float_sub last_price prev_close) prev_close of
        Inl e \<Rightarrow> Inl e
      | Inr ratio \<Rightarrow>
      (let change_percent = float_mul ratio (Fin 100);
           server_time_utc = isoformat (now\<lparr>tzinfo := Some utc\<rparr>) in
       case py_round last_price 4 of Inl e \<Rightarrow> Inl e | Inr r_last \<Rightarrow>
      (case py_round prev_close 4 of Inl e \<Rightarrow> Inl e | Inr r_prev \<Rightarrow>
      (case py_round change_percent 4 of Inl e \<Rightarrow> Inl e | Inr r_change \<Rightarrow>
      (case py_int volume of Inl e \<Rightarrow> Inl e | Inr i_volume \<Rightarrow>
      (case format_volume volume of Inl e \<Rightarrow> Inl e | Inr s_volume \<Rightarrow>
         Inr [(''symbol'', JStr symbol),
              (''last_price'', JFloat r_last),
              (''previous_close'', JFloat r_prev),
              (''change_percent'', JFloat r_change),
              (''volume'', JInt i_volume),
              (''volume_formatted'', JStr s_volume),
              (''timestamp'', JStr (isoformat timestamp)),
              (''last_updated_utc'', JStr server_time_utc)])))))))"

record response =
  status :: nat
  body :: jdict

definition get_quote ::
  "(string \<Rightarrow> string) \<Rightarrow> provider \<Rightarrow> pydatetime \<Rightarrow> string \<Rightarrow> response" where
  "get_quote unicode_upper history now symbol =
     (case build_response unicode_upper history now symbol of
        Inl exc \<Rightarrow>
          if is_ValueError exc then
            \<lparr>status = 404, body = [(''error'', JStr (str_exc exc))]\<rparr>
          else
            \<lparr>status = 502,
             body = [(''error'', JStr ''Failed to reach Yahoo Finance''),
                     (''details'', JStr (str_exc exc))]\<rparr>
      | Inr data \<Rightarrow> \<lparr>status = 200, body = data\<rparr>)"

section \<open>Vocabulary of the statements\<close>

text \<open>
  The previous close and the timestamp that \<open>_fetch_quote\<close> resolves from the rows, and
  the percent change that \<open>_build_response\<close> computes, named for the statements below.
\<close>

definition resolved_prev :: "bar list \<Rightarrow> pyfloat" where
  "resolved_prev hist =
     (if length hist > 1 then Close (hist ! (length hist - 2)) else Close (last hist))"

definition resolved_timestamp :: "bar list \<Rightarrow> pydatetime" where
  "resolved_timestamp hist =
     (let t = Index (last hist) in if tzinfo t = None then t\<lparr>tzinfo := Some utc\<rparr> else t)"

definition percent_change :: "pyfloat \<Rightarrow> pyfloat \<Rightarrow> pyfloat" where
  "percent_change last_price prev_close =
     float_mul (ieee_div (float_sub last_price prev_close) prev_close) (Fin 100)"

section \<open>Concrete requests\<close>

definition clock0 :: pydatetime where
  "clock0 = \<lparr>year = 2024, month = 5, day = 6, hour = 15, minute = 4, second = 5,
             microsecond = 123456, tzinfo = None\<rparr>"

definition friday_ny :: pydatetime where
  "friday_ny = \<lparr>year = 2024, month = 5, day = 3, hour = 0, minute = 0, second = 0,
                microsecond = 0, tzinfo = Some (- 14400)\<rparr>"

definition monday_naive :: pydatetime where
  "monday_naive = \<lparr>year = 2024, month = 5, day = 6, hour = 0, minute = 0, second = 0,
                   microsecond = 0, tzinfo = None\<rparr>"

definition bar_fri :: bar where
  "bar_fri = \<lparr>Close = Fin 100, Volume = Fin 2500000, Index = friday_ny\<rparr>"

definition bar_mon :: bar where
  "bar_mon = \<lparr>Close = Fin 101, Volume = Fin 3500000, Index = monday_naive\<rparr>"

text \<open>
  The concrete requests are ASCII and never consult the table; it is one that leaves
  non-ASCII text as it is.
\<close>

definition no_unicode :: "string \<Rightarrow> string" where
  "no_unicode run = run"

definition two_bars :: provider where
  "two_bars symbol = Inr [bar_fri, bar_mon]"

definition one_bar :: provider where
  "one_bar symbol = Inr [bar_mon]"

definition no_bars :: provider where
  "no_bars symbol = Inr []"

definition penny_bar :: provider where
  "penny_bar symbol = Inr [bar_mon\<lparr>Close := Fin (1 / 131072)\<rparr>]"

definition nan_close :: provider where
  "nan_close symbol = Inr [bar_mon\<lparr>Close := NaN\<rparr>]"

definition nan_volume :: provider where
  "nan_volume symbol = Inr [bar_fri, bar_mon\<lparr>Volume := NaN\<rparr>]"

definition zero_prev :: provider where
  "zero_prev symbol = Inr [bar_fri\<lparr>Close := Fin 0\<rparr>, bar_mon]"

definition provider_down :: provider where
  "provider_down symbol = Inl (OtherException ''Connection timed out'')"

definition two_bars_quote :: jdict where
  "two_bars_quote =
     [(''symbol'', JStr ''AAPL''), (''last_price'', JFloat (Fin 101)),
      (''previous_close'', JFloat (Fin 100)),
      (''change_percent'', JFloat (Fin 1)), (''volume'', JInt 3500000),
      (''volume_formatted'', JStr ''3.50M''),
      (''timestamp'', JStr ''2024-05-06T00:00:00+00:00''),
      (''last_updated_utc'', JStr ''2024-05-06T15:04:05.123456+00:00'')]"

definition one_bar_quote :: jdict where
  "one_bar_quote =
     [(''symbol'', JStr ''AAPL''), (''last_price'', JFloat (Fin 101)),
      (''previous_close'', JFloat (Fin 101)),
      (''change_percent'', JFloat (Fin 0)), (''volume'', JInt 3500000),
      (''volume_formatted'', JStr ''3.50M''),
      (''timestamp'', JStr ''2024-05-06T00:00:00+00:00''),
      (''last_updated_utc'', JStr ''2024-05-06T15:04:05.123456+00:00'')]"

section \<open>Rounding\<close>

lemma pow2_powi: "pow2 e = 2 powi e"
  by (simp add: pow2_def power_int_def field_simps)

lemma pow2_pos: "0 < pow2 e"
  by (simp add: pow2_powi)

lemma pow2_mono: "a \<le> b \<Longrightarrow> pow2 a \<le> pow2 b"
  by (simp add: pow2_powi power_int_increasing)

lemma ilog2_le:
  assumes "0 < q"
  shows "pow2 (ilog2 q) \<le> q"
proof -
  obtain a b where ab: "quotient_of q = (a, b)" by (cases "quotient_of q") auto
  then have b: "0 < b" and q: "q = of_int a / of_int b"
    by (auto dest: quotient_of_denom_pos quotient_of_div)
  from assms b q have a: "0 < a" by (simp add: zero_less_divide_iff)
  define k where "k = bitlen a - bitlen b"
  show ?thesis
  proof (cases "pow2 k \<le> q")
    case True
    with ab show ?thesis by (simp add: ilog2_def k_def)
  next
    case False
    with ab have il: "ilog2 q = bitlen a - 1 - bitlen b" by (simp add: ilog2_def k_def)
    from bitlen_bounds [OF a] have la: "2 ^ nat (bitlen a - 1) \<le> a" by simp
    from bitlen_bounds [OF b] have lb: "b < 2 ^ nat (bitlen b)" by simp
    from a have la1: "0 \<le> bitlen a - 1" by (simp add: bitlen_alt_def)
    have lb0: "0 \<le> bitlen b" by (rule bitlen_nonneg)
    have "pow2 (bitlen a - 1 - bitlen b) = pow2 (bitlen a - 1) / pow2 (bitlen b)"
      unfolding pow2_powi by (rule power_int_diff) simp
    also have "\<dots> = 2 ^ nat (bitlen a - 1) / 2 ^ nat (bitlen b)"
      using la1 lb0 by (simp add: pow2_def)
    also have "\<dots> \<le> of_int a / of_int b"
    proof (rule frac_le)
      from a show "(0::rat) \<le> of_int a" by simp
      from la have "of_int (2 ^ nat (bitlen a - 1)) \<le> (of_int a :: rat)"
        by (simp only: of_int_le_iff)
      then show "(2::rat) ^ nat (bitlen a - 1) \<le> of_int a" by simp
      from b show "(0::rat) < of_int b" by simp
      from lb have "(of_int b :: rat) < of_int (2 ^ nat (bitlen b))"
        by (simp only: of_int_less_iff)
      then show "(of_int b :: rat) \<le> 2 ^ nat (bitlen b)" by simp
    qed
    finally show ?thesis using il q by simp
  qed
qed

lemma ilog2_less:
  assumes "0 < q"
  shows "q < pow2 (ilog2 q + 1)"
proof -
  obtain a b where ab: "quotient_of q = (a, b)" by (cases "quotient_of q") auto
  then have b: "0 < b" and q: "q = of_int a / of_int b"
    by (auto dest: quotient_of_denom_pos quotient_of_div)
  from assms b q have a: "0 < a" by (simp add: zero_less_divide_iff)
  define k where "k = bitlen a - bitlen b"
  show ?thesis
  proof (cases "pow2 k \<le> q")
    case False
    with ab show ?thesis by (simp add: ilog2_def k_def)
  next
    case True
    with ab have "ilog2 q = bitlen a - bitlen b" by (simp add: ilog2_def k_def)
    then have il: "bitlen a - (bitlen b - 1) = ilog2 q + 1" by simp
    from bitlen_bounds [OF a] have la: "a < 2 ^ nat (bitlen a)" by simp
    from bitlen_bounds [OF b] have lb: "2 ^ nat (bitlen b - 1) \<le> b" by simp
    from b have lb1: "0 \<le> bitlen b - 1" by (simp add: bitlen_alt_def)
    have la0: "0 \<le> bitlen a" by (rule bitlen_nonneg)
    have "of_int a / of_int b < (2::rat) ^ nat (bitlen a) / 2 ^ nat (bitlen b - 1)"
    proof (rule frac_less)
      from a show "(0::rat) \<le> of_int a" by simp
      from la have "(of_int a :: rat) < of_int (2 ^ nat (bitlen a))"
        by (simp only: of_int_less_iff)
      then show "(of_int a :: rat) < 2 ^ nat (bitlen a)" by simp
      show "(0::rat) < 2 ^ nat (bitlen b - 1)" by simp
      from lb have "of_int (2 ^ nat (bitlen b - 1)) \<le> (of_int b :: rat)"
        by (simp only: of_int_le_iff)
      then show "(2::rat) ^ nat (bitlen b - 1) \<le> of_int b" by simp
    qed
    also have "(2::rat) ^ nat (bitlen a) / 2 ^ nat (bitlen b - 1)
                 = pow2 (bitlen a) / pow2 (bitlen b - 1)"
      using la0 lb1 by (simp add: pow2_def)
    also have "\<dots> = pow2 (bitlen a - (bitlen b - 1))"
      unfolding pow2_powi by (rule power_int_diff [symmetric]) simp
    finally show ?thesis unfolding il q [symmetric] .
  qed
qed

lemma round_half_even_ge_floor: "\<lfloor>x\<rfloor> \<le> round_half_even x"
  by (simp add: round_half_even_def Let_def)

lemma rn_mag_pos:
  assumes "1 \<le> p"
  shows "rn_mag p = PInf \<or> (\<exists>r. rn_mag p = Fin r \<and> 0 < r)"
proof -
  define e where "e = max (ilog2 p) (- 1022)"
  define ulp where "ulp = pow2 (e - 52)"
  from assms have p0: "0 < p" by simp
  have ulp_pos: "0 < ulp" by (simp add: ulp_def pow2_pos)
  have "ulp \<le> p"
  proof (cases "ilog2 p \<le> - 1022")
    case True
    then have "e = - 1022" by (simp add: e_def)
    then have "ulp \<le> pow2 0" unfolding ulp_def by (intro pow2_mono) simp
    also have "\<dots> = 1" by (simp add: pow2_def)
    finally show ?thesis using assms by simp
  next
    case False
    then have "e = ilog2 p" by (simp add: e_def)
    then have "ulp \<le> pow2 (ilog2 p)" unfolding ulp_def by (intro pow2_mono) simp
    with ilog2_le [OF p0] show ?thesis by simp
  qed
  with ulp_pos have "1 \<le> p / ulp" by (simp add: le_divide_eq)
  then have "1 \<le> \<lfloor>p / ulp\<rfloor>" by (simp add: le_floor_iff)
  from this round_half_even_ge_floor [of "p / ulp"] have "1 \<le> round_half_even (p / ulp)"
    by (rule order_trans)
  then have "0 < of_int (round_half_even (p / ulp)) * ulp"
    using ulp_pos by (simp add: zero_less_mult_iff)
  with p0 show ?thesis
    by (simp add: rn_mag_def Let_def e_def [symmetric] ulp_def [symmetric])
qed

section \<open>\<open>_fetch_quote\<close> and \<open>_build_response\<close> by cases\<close>

lemma fetch_quote_raise: "history symbol = Inl e \<Longrightarrow> fetch_quote history symbol = Inl e"
  by (simp add: fetch_quote_def)

lemma fetch_quote_empty:
  "history symbol = Inr [] \<Longrightarrow>
   fetch_quote history symbol =
     Inl (ValueError (''No price data available for symbol '' @ quoted symbol @ ''.''))"
  by (simp add: fetch_quote_def)

lemma fetch_quote_rows:
  "history symbol = Inr hist \<Longrightarrow> hist \<noteq> [] \<Longrightarrow>
   fetch_quote history symbol =
     (if float_eq (resolved_prev hist) (Fin 0)
      then Inl (ValueError (''Previous close is zero for symbol '' @ quoted symbol @ ''.''))
      else Inr (Close (last hist), resolved_prev hist, resolved_timestamp hist,
                Volume (last hist)))"
  by (simp add: fetch_quote_def resolved_prev_def resolved_timestamp_def Let_def)

lemma fetch_quote_Inr:
  assumes "fetch_quote history symbol = Inr (l, p, t, v)"
  shows "\<exists>hist. history symbol = Inr hist \<and> hist \<noteq> [] \<and> \<not> float_eq (resolved_prev hist) (Fin 0)
           \<and> l = Close (last hist) \<and> p = resolved_prev hist
           \<and> t = resolved_timestamp hist \<and> v = Volume (last hist)"
proof (cases "history symbol")
  case (Inl e)
  with assms show ?thesis by (simp add: fetch_quote_def)
next
  case (Inr hist)
  show ?thesis
  proof (cases "hist = []")
    case True
    with Inr assms show ?thesis by (simp add: fetch_quote_def)
  next
    case False
    from fetch_quote_rows [of history symbol hist] assms Inr False show ?thesis
      by (simp split: if_splits)
  qed
qed

lemma build_response_fetch_fail:
  "fetch_quote history (upper tbl symbol) = Inl e \<Longrightarrow> build_response tbl history now symbol = Inl e"
  by (simp add: build_response_def)

lemma build_response_fetched:
  assumes "fetch_quote history (upper tbl symbol) = Inr (l, p, t, v)"
    and "\<not> float_eq p (Fin 0)"
  shows "build_response tbl history now symbol =
     (case py_round l 4 of Inl e \<Rightarrow> Inl e | Inr r_last \<Rightarrow>
      (case py_round p 4 of Inl e \<Rightarrow> Inl e | Inr r_prev \<Rightarrow>
      (case py_round (percent_change l p) 4 of Inl e \<Rightarrow> Inl e | Inr r_change \<Rightarrow>
      (case py_int v of Inl e \<Rightarrow> Inl e | Inr i_volume \<Rightarrow>
      (case format_volume v of Inl e \<Rightarrow> Inl e | Inr s_volume \<Rightarrow>
         Inr [(''symbol'', JStr (upper tbl symbol)),
              (''last_price'', JFloat r_last),
              (''previous_close'', JFloat r_prev),
              (''change_percent'', JFloat r_change),
              (''volume'', JInt i_volume),
              (''volume_formatted'', JStr s_volume),
              (''timestamp'', JStr (isoformat t)),
              (''last_updated_utc'', JStr (isoformat (now\<lparr>tzinfo := Some utc\<rparr>)))])))))"
  using assms unfolding build_response_def float_truediv_def percent_change_def Let_def
  by simp

lemma build_response_Inr:
  assumes "build_response tbl history now symbol = Inr d"
  shows "\<exists>hist r_last r_prev r_change i_volume s_volume.
           history (upper tbl symbol) = Inr hist \<and> hist \<noteq> []
         \<and> \<not> float_eq (resolved_prev hist) (Fin 0)
         \<and> py_round (Close (last hist)) 4 = Inr r_last
         \<and> py_round (resolved_prev hist) 4 = Inr r_prev
         \<and> py_round (percent_change (Close (last hist)) (resolved_prev hist)) 4 = Inr r_change
         \<and> py_int (Volume (last hist)) = Inr i_volume
         \<and> format_volume (Volume (last hist)) = Inr s_volume
         \<and> d = [(''symbol'', JStr (upper tbl symbol)),
                (''last_price'', JFloat r_last),
                (''previous_close'', JFloat r_prev),
                (''change_percent'', JFloat r_change),
                (''volume'', JInt i_volume),
                (''volume_formatted'', JStr s_volume),
                (''timestamp'', JStr (isoformat (resolved_timestamp hist))),
                (''last_updated_utc'', JStr (isoformat (now\<lparr>tzinfo := Some utc\<rparr>)))]"
proof (cases "fetch_quote history (upper tbl symbol)")
  case (Inl e)
  with assms show ?thesis by (simp add: build_response_fetch_fail)
next
  case (Inr q)
  obtain l p t v where q: "q = (l, p, t, v)" by (cases q) auto
  from Inr q have f: "fetch_quote history (upper tbl symbol) = Inr (l, p, t, v)" by simp
  from fetch_quote_Inr [OF f] obtain hist where
    h: "history (upper tbl symbol) = Inr hist" "hist \<noteq> []" "\<not> float_eq (resolved_prev hist) (Fin 0)"
       "l = Close (last hist)" "p = resolved_prev hist" "t = resolved_timestamp hist"
       "v = Volume (last hist)" by blast
  from h have nz: "\<not> float_eq p (Fin 0)" by simp
  from assms build_response_fetched [of history tbl symbol l p t v now] f nz h show ?thesis
    by (simp split: sum.splits)
qed

section \<open>Formatting of volumes\<close>

lemma fmt_2f_fneg:
  assumes "x = PInf \<or> (\<exists>r. x = Fin r \<and> 0 < r)"
  shows "fmt_2f (fneg x) = CHR ''-'' # fmt_2f x"
  using assms by (auto simp: Let_def)

lemma format_volume_Fin:
  "format_volume (Fin v) =
     (if 1000000000 \<le> \<bar>v\<bar> then Inr (fmt_2f (rn (v / 1000000000)) @ ''B'')
      else if 1000000 \<le> \<bar>v\<bar> then Inr (fmt_2f (rn (v / 1000000)) @ ''M'')
      else if 1000 \<le> \<bar>v\<bar> then Inr (fmt_2f (rn (v / 1000)) @ ''K'')
      else Inr (show_int (if 0 \<le> v then \<lfloor>v\<rfloor> else \<lceil>v\<rceil>)))"
  by (simp add: format_volume_def float_truediv_def)

lemma fmt_2f_rn_neg:
  assumes "0 < c" "c \<le> q"
  shows "fmt_2f (rn (- q / c)) = CHR ''-'' # fmt_2f (rn (q / c))"
proof -
  from assms have q: "0 < q" by simp
  from assms have one: "1 \<le> q / c" by (simp add: le_divide_eq)
  from assms q have neg: "- q / c < 0" by (simp add: divide_neg_pos)
  from assms q have pos: "\<not> q / c < 0" by (simp add: not_less)
  from neg pos have "fmt_2f (rn (- q / c)) = fmt_2f (fneg (rn (q / c)))"
    by (simp add: rn_def)
  also have "\<dots> = CHR ''-'' # fmt_2f (rn (q / c))"
    using rn_mag_pos [OF one] pos by (intro fmt_2f_fneg) (simp add: rn_def)
  finally show ?thesis .
qed

lemma format_volume_neg:
  assumes "0 < q"
  shows "format_volume (Fin (- q)) =
     (if q < 1000 then Inr (show_int (- \<lfloor>q\<rfloor>))
      else map_sum id ((#) CHR ''-'') (format_volume (Fin q)))"
proof (cases "q < 1000")
  case True
  with assms show ?thesis by (simp add: format_volume_Fin ceiling_minus)
next
  case False
  then have k: "1000 \<le> q" by simp
  show ?thesis
  proof (cases "1000000000 \<le> q")
    case True
    with assms fmt_2f_rn_neg [of 1000000000 q] show ?thesis
      by (simp add: format_volume_Fin)
  next
    case b: False
    show ?thesis
    proof (cases "1000000 \<le> q")
      case True
      with assms b fmt_2f_rn_neg [of 1000000 q] show ?thesis
        by (simp add: format_volume_Fin)
    next
      case m: False
      with assms b k fmt_2f_rn_neg [of 1000 q] show ?thesis
        by (simp add: format_volume_Fin)
    qed
  qed
qed

section \<open>Evaluation of the concrete requests\<close>

lemma build_two_bars: "build_response no_unicode two_bars clock0 ''aapl'' = Inr two_bars_quote"
  by code_simp

lemma build_one_bar: "build_response no_unicode one_bar clock0 ''aapl'' = Inr one_bar_quote"
  by code_simp

lemma build_nan_volume:
  "build_response no_unicode nan_volume clock0 ''aapl'' =
     Inl (ValueError ''cannot convert float NaN to integer'')"
  by code_simp

lemma get_nan_close:
  "get_quote no_unicode nan_close clock0 ''aapl'' =
     \<lparr>status = 200,
      body = [(''symbol'', JStr ''AAPL''), (''last_price'', JFloat NaN),
              (''previous_close'', JFloat NaN), (''change_percent'', JFloat NaN),
              (''volume'', JInt 3500000), (''volume_formatted'', JStr ''3.50M''),
              (''timestamp'', JStr ''2024-05-06T00:00:00+00:00''),
              (''last_updated_utc'', JStr ''2024-05-06T15:04:05.123456+00:00'')]\<rparr>"
  by code_simp

lemma get_penny:
  "get_quote no_unicode penny_bar clock0 ''shib-usd'' =
     \<lparr>status = 200,
      body = [(''symbol'', JStr ''SHIB-USD''), (''last_price'', JFloat (Fin 0)),
              (''previous_close'', JFloat (Fin 0)), (''change_percent'', JFloat (Fin 0)),
              (''volume'', JInt 3500000), (''volume_formatted'', JStr ''3.50M''),
              (''timestamp'', JStr ''2024-05-06T00:00:00+00:00''),
              (''last_updated_utc'', JStr ''2024-05-06T15:04:05.123456+00:00'')]\<rparr>"
  by code_simp

lemma penny_is_float: "is_binary64 (1 / 131072)"
  by code_simp

text \<open>Two known values: the float \<open>0.1\<close>, and \<open>round(0.125, 2) == 0.12\<close>.\<close>

lemma rn_one_tenth: "rn (1 / 10) = Fin (3602879701896397 / 36028797018963968)"
  by code_simp

lemma py_round_tie: "py_round (Fin (1 / 8)) 2 = Inr (rn (3 / 25))"
  by code_simp

lemma fv_500: "format_volume (Fin 500) = Inr ''500''" by code_simp
lemma fv_999: "format_volume (Fin 999) = Inr ''999''" by code_simp
lemma fv_1500: "format_volume (Fin 1500) = Inr ''1.50K''" by code_simp
lemma fv_2500000: "format_volume (Fin 2500000) = Inr ''2.50M''" by code_simp
lemma fv_3000000000: "format_volume (Fin 3000000000) = Inr ''3.00B''" by code_simp
lemma fv_1000000: "format_volume (Fin 1000000) = Inr ''1.00M''" by code_simp
lemma fv_999999: "format_volume (Fin 999999) = Inr ''1000.00K''" by code_simp
lemma fv_neg_2500000: "format_volume (Fin (- 2500000)) = Inr ''-2.50M''" by code_simp
lemma fv_neg_999_9: "format_volume (rn (- 9999 / 10)) = Inr ''-999''" by code_simp
lemma fv_neg_half: "format_volume (Fin (- 1 / 2)) = Inr ''0''" by code_simp
lemma neg_half_is_float: "is_binary64 (- 1 / 2)" by code_simp
lemma rn_neg_999_9: "rn (- 9999 / 10) = Fin (- 8795213412905779 / 8796093022208)" by code_simp

section \<open>Zero, upper case and offsets\<close>

lemma rn_zero: "rn 0 = Fin 0"
  by (simp add: rn_def rn_mag_def)

lemma round_half_even_zero: "round_half_even 0 = 0"
  by (simp add: round_half_even_def)

lemma py_round_zero: "py_round (Fin 0) n = Inr (Fin 0)"
  by (simp add: round_half_even_zero rn_mag_def)

lemma percent_change_same: "c \<noteq> 0 \<Longrightarrow> percent_change (Fin c) (Fin c) = Fin 0"
  by (simp add: percent_change_def rn_zero)

lemma resolved_prev_single: "resolved_prev [b] = Close b"
  by (simp add: resolved_prev_def)

lemma resolved_prev_two: "resolved_prev (pre @ [b1, b2]) = Close b1"
  by (simp add: resolved_prev_def nth_append)

lemma get_quote_raise:
  "build_response tbl history now symbol = Inl exc \<Longrightarrow>
   get_quote tbl history now symbol =
     (if is_ValueError exc
      then \<lparr>status = 404, body = [(''error'', JStr (str_exc exc))]\<rparr>
      else \<lparr>status = 502,
            body = [(''error'', JStr ''Failed to reach Yahoo Finance''),
                    (''details'', JStr (str_exc exc))]\<rparr>)"
  by (simp add: get_quote_def)

lemma get_quote_ok:
  "build_response tbl history now symbol = Inr d \<Longrightarrow>
   get_quote tbl history now symbol = \<lparr>status = 200, body = d\<rparr>"
  by (simp add: get_quote_def)

lemma get_quote_200:
  assumes "status (get_quote tbl history now symbol) = 200"
  shows "\<exists>d. build_response tbl history now symbol = Inr d \<and> body (get_quote tbl history now symbol) = d"
proof (cases "build_response tbl history now symbol")
  case (Inl exc)
  from get_quote_raise [OF Inl] assms show ?thesis by (simp split: if_splits)
next
  case (Inr d)
  from get_quote_ok [OF Inr] show ?thesis using Inr by simp
qed

lemma build_response_empty:
  "history (upper tbl symbol) = Inr [] \<Longrightarrow>
   build_response tbl history now symbol =
     Inl (ValueError (''No price data available for symbol '' @ quoted (upper tbl symbol) @ ''.''))"
  by (simp add: build_response_fetch_fail fetch_quote_empty)

lemma build_response_zero_prev:
  assumes "history (upper tbl symbol) = Inr hist" "hist \<noteq> []" "float_eq (resolved_prev hist) (Fin 0)"
  shows "build_response tbl history now symbol =
     Inl (ValueError (''Previous close is zero for symbol '' @ quoted (upper tbl symbol) @ ''.''))"
  using fetch_quote_rows [of history "upper tbl symbol" hist] assms
  by (simp add: build_response_fetch_fail)

lemma build_response_provider_raise:
  "history (upper tbl symbol) = Inl exc \<Longrightarrow> build_response tbl history now symbol = Inl exc"
  by (simp add: build_response_fetch_fail fetch_quote_raise)

lemma upper_char_not_lower: "\<not> ascii_lower (upper_char c)"
proof -
  define n :: nat where "n = of_char c"
  show ?thesis
  proof (cases "ascii_lower c")
    case True
    then have r: "97 \<le> n \<and> n \<le> 122" by (simp add: ascii_lower_def n_def)
    from True have "upper_char c = char_of (n - 32)" by (simp add: upper_char_def n_def)
    moreover from r have "n - 32 < 256" by linarith
    then have "(n - 32) mod 256 = n - 32" by (rule mod_less)
    ultimately have "(of_char (upper_char c) :: nat) = n - 32" by (simp add: of_char_of)
    moreover from r have "n - 32 < 97" by linarith
    ultimately show ?thesis by (simp add: ascii_lower_def)
  next
    case False
    then show ?thesis by (simp add: upper_char_def)
  qed
qed

lemma upper_char_idem: "upper_char (upper_char c) = upper_char c"
  using upper_char_not_lower [of c] by (simp add: upper_char_def [of "upper_char c"])

lemma upper_char_ascii: "is_ascii c \<Longrightarrow> is_ascii (upper_char c)"
proof -
  assume a: "is_ascii c"
  define n :: nat where "n = of_char c"
  show ?thesis
  proof (cases "ascii_lower c")
    case True
    then have r: "97 \<le> n \<and> n \<le> 122" by (simp add: ascii_lower_def n_def)
    from True have "upper_char c = char_of (n - 32)" by (simp add: upper_char_def n_def)
    moreover from r have "n - 32 < 256" by linarith
    then have "(n - 32) mod 256 = n - 32" by (rule mod_less)
    ultimately have "(of_char (upper_char c) :: nat) = n - 32" by (simp add: of_char_of)
    moreover from r have "n - 32 < 128" by linarith
    ultimately show ?thesis by (simp add: is_ascii_def)
  next
    case False
    with a show ?thesis by (simp add: upper_char_def)
  qed
qed

lemma upper_ascii: "list_all is_ascii s \<Longrightarrow> upper tbl s = map upper_char s"
  by (induction s) simp_all

lemma upper_ascii_no_lower: "list_all is_ascii s \<Longrightarrow> \<not> list_ex ascii_lower (upper tbl s)"
  by (simp add: upper_ascii list_ex_iff upper_char_not_lower)

lemma upper_ascii_idem:
  assumes "list_all is_ascii s"
  shows "upper tbl (upper tbl s) = upper tbl s"
proof -
  from assms have "list_all is_ascii (map upper_char s)"
    by (simp add: list_all_iff upper_char_ascii)
  then have "upper tbl (map upper_char s) = map upper_char (map upper_char s)"
    by (rule upper_ascii)
  then show ?thesis by (simp add: upper_ascii [OF assms] upper_char_idem)
qed

lemma upper_char_aapl: "map upper_char ''aapl'' = ''AAPL''"
  by code_simp

lemma upper_aapl: "upper tbl ''aapl'' = ''AAPL''"
proof -
  have "list_all is_ascii ''aapl''" by (simp add: is_ascii_def)
  then have "upper tbl ''aapl'' = map upper_char ''aapl''" by (rule upper_ascii)
  then show ?thesis by (simp only: upper_char_aapl)
qed

lemma upper_char_ab: "upper_char CHR ''a'' = CHR ''A''" "upper_char CHR ''b'' = CHR ''B''"
  by code_simp+

text \<open>
  A run of non-ASCII bytes goes through the table as a whole, and the ASCII characters
  around it are mapped as before: \<open>a\<close> followed by e-acute, \<open>C3 A9\<close> in UTF-8.
\<close>

lemma upper_mixed:
  "upper tbl [CHR ''a'', CHR 0xC3, CHR 0xA9, CHR ''b'']
     = CHR ''A'' # tbl [CHR 0xC3, CHR 0xA9] @ ''B''"
  by (simp add: is_ascii_def upper_char_ab)

lemma show_nat_0: "show_nat 0 = ''0''"
  by code_simp

lemma format_offset_utc: "format_offset (Some utc) = ''+00:00''"
  by (simp add: format_offset_def utc_def zpad_def show_nat_0)

lemma isoformat_aware:
  "tzinfo t = Some off \<Longrightarrow>
   isoformat t = isoformat (t\<lparr>tzinfo := None\<rparr>) @ format_offset (Some off)"
  by (simp add: isoformat_def format_offset_def)

lemma isoformat_tag_utc:
  "tzinfo t = None \<Longrightarrow> isoformat (t\<lparr>tzinfo := Some utc\<rparr>) = isoformat t @ ''+00:00''"
  by (simp add: isoformat_def format_offset_utc) (simp add: format_offset_def)

lemma format_offset_sign:
  "hd (format_offset (Some off)) = (if off < 0 then CHR ''-'' else CHR ''+'')"
  by (simp add: format_offset_def Let_def)

lemma resolved_timestamp_aware: "tzinfo (resolved_timestamp hist) \<noteq> None"
  by (simp add: resolved_timestamp_def Let_def)

lemma isoformat_now_utc:
  "isoformat (now\<lparr>tzinfo := Some utc\<rparr>) = isoformat (now\<lparr>tzinfo := None\<rparr>) @ ''+00:00''"
  using isoformat_aware [of "now\<lparr>tzinfo := Some utc\<rparr>" utc]
  by (simp add: format_offset_utc)

lemma get_two_bars:
  "get_quote no_unicode two_bars clock0 ''aapl'' = \<lparr>status = 200, body = two_bars_quote\<rparr>"
  using build_two_bars by (rule get_quote_ok)

section \<open>The claims\<close>

text \<open>
  C4. Whenever the provider returns zero bars for a symbol, the request fails with status
  404 and a body that carries an error message, and no Quote is built.
\<close>

theorem c4_empty_history_is_404:
  assumes "history (upper tbl symbol) = Inr []"
  shows "get_quote tbl history now symbol =
           \<lparr>status = 404,
            body = [(''error'', JStr (''No price data available for symbol ''
                                      @ quoted (upper tbl symbol) @ ''.''))]\<rparr>
         \<and> (\<exists>exc. build_response tbl history now symbol = Inl exc)"
proof -
  from build_response_empty [of history tbl symbol now] assms
  have b: "build_response tbl history now symbol =
      Inl (ValueError (''No price data available for symbol '' @ quoted (upper tbl symbol) @ ''.''))"
    by simp
  from get_quote_raise [OF b] b show ?thesis by simp
qed

theorem c4_empty_history_is_404_witness:
  "no_bars (upper no_unicode ''aapl'') = Inr []
   \<and> get_quote no_unicode no_bars clock0 ''aapl'' =
       \<lparr>status = 404,
        body = [(''error'', JStr (''No price data available for symbol ''
                                  @ quoted (upper no_unicode ''aapl'') @ ''.''))]\<rparr>
   \<and> (\<exists>exc. build_response no_unicode no_bars clock0 ''aapl'' = Inl exc)"
proof -
  have h: "no_bars (upper no_unicode ''aapl'') = Inr []" by (simp add: no_bars_def)
  from c4_empty_history_is_404 [of no_bars no_unicode "''aapl''" clock0] h show ?thesis by simp
qed

text \<open>
  C1. For every fetch result of at least two bars with non-zero previous close, the
  \<open>change_percent\<close> field of the built Quote is
  \<open>round((last - prev) / prev * 100, 4)\<close>, computed in float arithmetic.
\<close>

theorem c1_change_percent:
  assumes "history (upper tbl symbol) = Inr (pre @ [b1, b2])"
    and "\<not> float_eq (Close b1) (Fin 0)"
    and "build_response tbl history now symbol = Inr d"
  shows "\<exists>r. py_round (float_mul (ieee_div (float_sub (Close b2) (Close b1)) (Close b1))
                           (Fin 100)) 4 = Inr r
             \<and> map_of d ''change_percent'' = Some (JFloat r)"
proof -
  from build_response_Inr [OF assms(3)] obtain hist r_last r_prev r_change i_volume s_volume
    where h: "history (upper tbl symbol) = Inr hist"
      and r: "py_round (percent_change (Close (last hist)) (resolved_prev hist)) 4 = Inr r_change"
      and d: "d = [(''symbol'', JStr (upper tbl symbol)),
                (''last_price'', JFloat r_last),
                (''previous_close'', JFloat r_prev),
                (''change_percent'', JFloat r_change),
                (''volume'', JInt i_volume),
                (''volume_formatted'', JStr s_volume),
                (''timestamp'', JStr (isoformat (resolved_timestamp hist))),
                (''last_updated_utc'', JStr (isoformat (now\<lparr>tzinfo := Some utc\<rparr>)))]"
    by blast
  from h assms(1) have hist: "hist = pre @ [b1, b2]" by simp
  from r have "py_round (float_mul (ieee_div (float_sub (Close b2) (Close b1)) (Close b1))
                           (Fin 100)) 4 = Inr r_change"
    by (simp add: hist resolved_prev_two percent_change_def)
  moreover from d have "map_of d ''change_percent'' = Some (JFloat r_change)" by simp
  ultimately show ?thesis by blast
qed

theorem c1_change_percent_witness:
  "two_bars (upper no_unicode ''aapl'') = Inr ([] @ [bar_fri, bar_mon])
   \<and> \<not> float_eq (Close bar_fri) (Fin 0)
   \<and> build_response no_unicode two_bars clock0 ''aapl'' = Inr two_bars_quote
   \<and> (\<exists>r. py_round (float_mul (ieee_div (float_sub (Close bar_mon) (Close bar_fri))
                                 (Close bar_fri)) (Fin 100)) 4 = Inr r
            \<and> map_of two_bars_quote ''change_percent'' = Some (JFloat r))"
proof -
  have h1: "two_bars (upper no_unicode ''aapl'') = Inr ([] @ [bar_fri, bar_mon])"
    by (simp add: two_bars_def)
  have h2: "\<not> float_eq (Close bar_fri) (Fin 0)" by (simp add: bar_fri_def)
  note h3 = build_two_bars
  from c1_change_percent [of two_bars no_unicode "''aapl''" "[]" bar_fri bar_mon clock0 two_bars_quote]
    h1 h2 h3 show ?thesis by blast
qed

text \<open>
  C2, as the code has it. For every finite volume \<open>v\<close>, \<open>_format_volume\<close> thresholds on the
  magnitude at 1e9, 1e6 and 1e3, divides by the threshold and formats with two decimals and
  the suffix B, M or K; below 1000 it emits the truncated integer with no suffix. So
  500 gives "500", 1500 gives "1.50K", 2500000 gives "2.50M", 3000000000 gives "3.00B",
  1000000 gives "1.00M", and 999999, which is above the 1e3 threshold, gives "1000.00K";
  999 gives "999".
\<close>

theorem c2_format_volume:
  "format_volume (Fin v) =
     (if 1000000000 \<le> \<bar>v\<bar> then Inr (fmt_2f (rn (v / 1000000000)) @ ''B'')
      else if 1000000 \<le> \<bar>v\<bar> then Inr (fmt_2f (rn (v / 1000000)) @ ''M'')
      else if 1000 \<le> \<bar>v\<bar> then Inr (fmt_2f (rn (v / 1000)) @ ''K'')
      else Inr (show_int (if 0 \<le> v then \<lfloor>v\<rfloor> else \<lceil>v\<rceil>)))
   \<and> format_volume (Fin 500) = Inr ''500''
   \<and> format_volume (Fin 1500) = Inr ''1.50K''
   \<and> format_volume (Fin 2500000) = Inr ''2.50M''
   \<and> format_volume (Fin 3000000000) = Inr ''3.00B''
   \<and> format_volume (Fin 1000000) = Inr ''1.00M''
   \<and> format_volume (Fin 999999) = Inr ''1000.00K''
   \<and> format_volume (Fin 999) = Inr ''999''"
  using format_volume_Fin [of v]
  by (simp only: fv_500 fv_1500 fv_2500000 fv_3000000000 fv_1000000 fv_999999 fv_999 simp_thms)

text \<open>
  C2 as stated has 999999 formatted as "999999"; the code returns "1000.00K".
\<close>

theorem c2_format_volume_999999_counterexample:
  "format_volume (Fin 999999) = Inr ''1000.00K'' \<and> format_volume (Fin 999999) \<noteq> Inr ''999999''"
  by (simp add: fv_999999)

text \<open>
  C10, as the code has it. \<open>_format_volume\<close> selects its branch by the magnitude of the
  input. For a negative volume of magnitude at least 1 the output is the minus sign followed
  by the output for the magnitude, so the suffix is the magnitude's and the sign is kept;
  below 1000 the value is truncated toward zero, so that a negative volume of magnitude
  below 1 gives "0", without a sign. \<open>-2500000\<close> gives "-2.50M" and the float \<open>-999.9\<close>
  gives "-999".
\<close>

theorem c10_format_volume_negative:
  assumes "0 < q"
  shows "format_volume (Fin (- q)) =
           (if q < 1 then Inr ''0''
            else map_sum id ((#) CHR ''-'') (format_volume (Fin q)))
         \<and> (q < 1000 \<longrightarrow> format_volume (Fin (- q)) = Inr (show_int (- \<lfloor>q\<rfloor>)))
         \<and> format_volume (Fin (- 2500000)) = Inr ''-2.50M''
         \<and> rn (- 9999 / 10) = Fin (- 8795213412905779 / 8796093022208)
         \<and> format_volume (rn (- 9999 / 10)) = Inr ''-999''"
proof -
  note n = format_volume_neg [OF assms]
  have a: "format_volume (Fin (- q)) =
           (if q < 1 then Inr ''0''
            else map_sum id ((#) CHR ''-'') (format_volume (Fin q)))"
  proof (cases "q < 1000")
    case False
    with n show ?thesis by simp
  next
    case True
    with n have m: "format_volume (Fin (- q)) = Inr (show_int (- \<lfloor>q\<rfloor>))" by simp
    from True assms have p: "format_volume (Fin q) = Inr (show_int \<lfloor>q\<rfloor>)"
      by (simp add: format_volume_Fin)
    show ?thesis
    proof (cases "q < 1")
      case True
      with assms have "\<lfloor>q\<rfloor> = 0" by (simp add: floor_eq_iff)
      with m True show ?thesis by (simp add: show_int_def show_nat_0)
    next
      case False
      then have "1 \<le> \<lfloor>q\<rfloor>" by (simp add: le_floor_iff)
      then have "show_int (- \<lfloor>q\<rfloor>) = CHR ''-'' # show_int \<lfloor>q\<rfloor>"
        by (simp add: show_int_def)
      with m p False show ?thesis by simp
    qed
  qed
  from n have b: "q < 1000 \<longrightarrow> format_volume (Fin (- q)) = Inr (show_int (- \<lfloor>q\<rfloor>))"
    by simp
  from rn_neg_999_9 have c: "rn (- 9999 / 10) = Fin (- 8795213412905779 / 8796093022208)"
    by simp
  from a b c fv_neg_2500000 fv_neg_999_9 show ?thesis by (intro conjI)
qed

theorem c10_format_volume_negative_witness:
  "(0::rat) < 2500000
   \<and> format_volume (Fin (- 2500000)) = map_sum id ((#) CHR ''-'') (format_volume (Fin 2500000))
   \<and> format_volume (Fin (- 2500000)) = Inr ''-2.50M''
   \<and> (0::rat) < 1 / 2 \<and> (1 / 2 :: rat) < 1000
   \<and> format_volume (Fin (- (1 / 2))) = Inr (show_int (- \<lfloor>1 / 2 :: rat\<rfloor>))"
proof -
  have h: "(0::rat) < 2500000" by simp
  have k: "(0::rat) < 1 / 2" by simp
  have l: "(1 / 2 :: rat) < 1000" by simp
  from c10_format_volume_negative [OF h]
  have "format_volume (Fin (- 2500000)) =
          map_sum id ((#) CHR ''-'') (format_volume (Fin 2500000))"
    and "format_volume (Fin (- 2500000)) = Inr ''-2.50M''"
    by (simp_all add: fv_2500000)
  moreover from c10_format_volume_negative [OF k] l
  have "format_volume (Fin (- (1 / 2))) = Inr (show_int (- \<lfloor>1 / 2 :: rat\<rfloor>))"
    by blast
  ultimately show ?thesis using h k l by blast
qed

text \<open>
  C10 as stated keeps the sign for every negative volume; \<open>-0.5\<close> is truncated to \<open>0\<close>
  and printed as "0".
\<close>

theorem c10_sign_lost_counterexample:
  "format_volume (Fin (- 1 / 2)) = Inr ''0'' \<and> is_binary64 (- 1 / 2)"
  using fv_neg_half neg_half_is_float by (rule conjI)

text \<open>
  C5, as the code has it. For every single-bar provider result whose close is a finite float, the
  built Quote has \<open>previous_close\<close> equal to \<open>last_price\<close> and \<open>change_percent\<close> equal
  to 0.
\<close>

theorem c5_single_bar_finite:
  assumes "history (upper tbl symbol) = Inr [b]"
    and "Close b = Fin c"
    and "build_response tbl history now symbol = Inr d"
  shows "\<exists>r. map_of d ''last_price'' = Some (JFloat r)
             \<and> map_of d ''previous_close'' = Some (JFloat r)
             \<and> map_of d ''change_percent'' = Some (JFloat (Fin 0))"
proof -
  from build_response_Inr [OF assms(3)] obtain hist r_last r_prev r_change i_volume s_volume
    where h: "history (upper tbl symbol) = Inr hist"
      and nz: "\<not> float_eq (resolved_prev hist) (Fin 0)"
      and rl: "py_round (Close (last hist)) 4 = Inr r_last"
      and rp: "py_round (resolved_prev hist) 4 = Inr r_prev"
      and rc: "py_round (percent_change (Close (last hist)) (resolved_prev hist)) 4 = Inr r_change"
      and d: "d = [(''symbol'', JStr (upper tbl symbol)),
                (''last_price'', JFloat r_last),
                (''previous_close'', JFloat r_prev),
                (''change_percent'', JFloat r_change),
                (''volume'', JInt i_volume),
                (''volume_formatted'', JStr s_volume),
                (''timestamp'', JStr (isoformat (resolved_timestamp hist))),
                (''last_updated_utc'', JStr (isoformat (now\<lparr>tzinfo := Some utc\<rparr>)))]"
    by blast
  from h assms(1) have hist: "hist = [b]" by simp
  from nz have c: "c \<noteq> 0" by (simp add: hist resolved_prev_single assms(2))
  from rl rp have same: "r_prev = r_last" by (simp add: hist resolved_prev_single)
  have "percent_change (Close (last hist)) (resolved_prev hist) = Fin 0"
    by (simp add: hist resolved_prev_single assms(2) percent_change_same [OF c])
  with rc have "py_round (Fin 0) 4 = Inr r_change" by (simp only:)
  then have "r_change = Fin 0" by (simp only: py_round_zero sum.inject)
  with same d show ?thesis by simp
qed

theorem c5_single_bar_finite_witness:
  "one_bar (upper no_unicode ''aapl'') = Inr [bar_mon]
   \<and> Close bar_mon = Fin 101
   \<and> build_response no_unicode one_bar clock0 ''aapl'' = Inr one_bar_quote
   \<and> (\<exists>r. map_of one_bar_quote ''last_price'' = Some (JFloat r)
           \<and> map_of one_bar_quote ''previous_close'' = Some (JFloat r)
           \<and> map_of one_bar_quote ''change_percent'' = Some (JFloat (Fin 0)))"
proof -
  have h1: "one_bar (upper no_unicode ''aapl'') = Inr [bar_mon]" by (simp add: one_bar_def)
  have h2: "Close bar_mon = Fin 101" by (simp add: bar_mon_def)
  note h3 = build_one_bar
  from c5_single_bar_finite [of one_bar no_unicode "''aapl''" bar_mon 101 clock0 one_bar_quote]
    h1 h2 h3 show ?thesis by blast
qed

text \<open>
  C5 as stated covers every single-bar result; with a NaN close a Quote is built whose
  \<open>change_percent\<close> is NaN, not 0.
\<close>

theorem c5_nan_close_counterexample:
  "get_quote no_unicode nan_close clock0 ''aapl'' =
     \<lparr>status = 200,
      body = [(''symbol'', JStr ''AAPL''), (''last_price'', JFloat NaN),
              (''previous_close'', JFloat NaN), (''change_percent'', JFloat NaN),
              (''volume'', JInt 3500000), (''volume_formatted'', JStr ''3.50M''),
              (''timestamp'', JStr ''2024-05-06T00:00:00+00:00''),
              (''last_updated_utc'', JStr ''2024-05-06T15:04:05.123456+00:00'')]\<rparr>
   \<and> nan_close ''AAPL'' = Inr [bar_mon\<lparr>Close := NaN\<rparr>]
   \<and> \<not> float_eq NaN (Fin 0)"
  by (simp add: get_nan_close nan_close_def)

text \<open>
  C3, as the code has it. Whenever the resolved previous close is exactly zero, the request fails with
  status 404 and no Quote is built; consequently every built Quote comes from a resolved
  previous close that is not zero, and its \<open>previous_close\<close> field is that value rounded
  to 4 decimals.
\<close>

theorem c3_zero_previous_close:
  "(history (upper tbl symbol) = Inr hist \<and> hist \<noteq> [] \<and> float_eq (resolved_prev hist) (Fin 0)
      \<longrightarrow> get_quote tbl history now symbol =
            \<lparr>status = 404,
             body = [(''error'', JStr (''Previous close is zero for symbol ''
                                       @ quoted (upper tbl symbol) @ ''.''))]\<rparr>
          \<and> (\<exists>exc. build_response tbl history now symbol = Inl exc))
   \<and> (build_response tbl history now symbol = Inr d
      \<longrightarrow> (\<exists>rows r. history (upper tbl symbol) = Inr rows \<and> rows \<noteq> []
             \<and> \<not> float_eq (resolved_prev rows) (Fin 0)
             \<and> py_round (resolved_prev rows) 4 = Inr r
             \<and> map_of d ''previous_close'' = Some (JFloat r)))"
proof (intro conjI impI)
  assume a: "history (upper tbl symbol) = Inr hist \<and> hist \<noteq> [] \<and> float_eq (resolved_prev hist) (Fin 0)"
  then have b: "build_response tbl history now symbol =
      Inl (ValueError (''Previous close is zero for symbol '' @ quoted (upper tbl symbol) @ ''.''))"
    using build_response_zero_prev [of history tbl symbol hist now] by simp
  from get_quote_raise [OF b]
  show "get_quote tbl history now symbol =
            \<lparr>status = 404,
             body = [(''error'', JStr (''Previous close is zero for symbol ''
                                       @ quoted (upper tbl symbol) @ ''.''))]\<rparr>"
    by simp
  from b show "\<exists>exc. build_response tbl history now symbol = Inl exc" by blast
next
  assume "build_response tbl history now symbol = Inr d"
  from build_response_Inr [OF this] obtain rows r_last r_prev r_change i_volume s_volume
    where "history (upper tbl symbol) = Inr rows" "rows \<noteq> []"
      "\<not> float_eq (resolved_prev rows) (Fin 0)"
      "py_round (resolved_prev rows) 4 = Inr r_prev"
      and d: "d = [(''symbol'', JStr (upper tbl symbol)),
                (''last_price'', JFloat r_last),
                (''previous_close'', JFloat r_prev),
                (''change_percent'', JFloat r_change),
                (''volume'', JInt i_volume),
                (''volume_formatted'', JStr s_volume),
                (''timestamp'', JStr (isoformat (resolved_timestamp rows))),
                (''last_updated_utc'', JStr (isoformat (now\<lparr>tzinfo := Some utc\<rparr>)))]"
    by blast
  moreover from d have "map_of d ''previous_close'' = Some (JFloat r_prev)" by simp
  ultimately show "\<exists>rows r. history (upper tbl symbol) = Inr rows \<and> rows \<noteq> []
             \<and> \<not> float_eq (resolved_prev rows) (Fin 0)
             \<and> py_round (resolved_prev rows) 4 = Inr r
             \<and> map_of d ''previous_close'' = Some (JFloat r)"
    by blast
qed

theorem c3_zero_previous_close_witness:
  "(zero_prev (upper no_unicode ''aapl'') = Inr [bar_fri\<lparr>Close := Fin 0\<rparr>, bar_mon]
    \<and> [bar_fri\<lparr>Close := Fin 0\<rparr>, bar_mon] \<noteq> []
    \<and> float_eq (resolved_prev [bar_fri\<lparr>Close := Fin 0\<rparr>, bar_mon]) (Fin 0))
   \<and> get_quote no_unicode zero_prev clock0 ''aapl'' =
        \<lparr>status = 404,
         body = [(''error'', JStr (''Previous close is zero for symbol ''
                                   @ quoted (upper no_unicode ''aapl'') @ ''.''))]\<rparr>
   \<and> build_response no_unicode two_bars clock0 ''aapl'' = Inr two_bars_quote
   \<and> (\<exists>rows r. two_bars (upper no_unicode ''aapl'') = Inr rows \<and> rows \<noteq> []
             \<and> \<not> float_eq (resolved_prev rows) (Fin 0)
             \<and> py_round (resolved_prev rows) 4 = Inr r
             \<and> map_of two_bars_quote ''previous_close'' = Some (JFloat r))"
proof -
  have h1: "zero_prev (upper no_unicode ''aapl'') = Inr [bar_fri\<lparr>Close := Fin 0\<rparr>, bar_mon]
    \<and> [bar_fri\<lparr>Close := Fin 0\<rparr>, bar_mon] \<noteq> []
    \<and> float_eq (resolved_prev [bar_fri\<lparr>Close := Fin 0\<rparr>, bar_mon]) (Fin 0)"
    by (simp add: zero_prev_def resolved_prev_def)
  note h2 = build_two_bars
  from c3_zero_previous_close
         [of zero_prev no_unicode "''aapl''" "[bar_fri\<lparr>Close := Fin 0\<rparr>, bar_mon]" clock0 "[]"] h1
  have a: "get_quote no_unicode zero_prev clock0 ''aapl'' =
        \<lparr>status = 404,
         body = [(''error'', JStr (''Previous close is zero for symbol ''
                                   @ quoted (upper no_unicode ''aapl'') @ ''.''))]\<rparr>"
    by blast
  from c3_zero_previous_close [of two_bars no_unicode "''aapl''" "[]" clock0 two_bars_quote] h2
  have b: "\<exists>rows r. two_bars (upper no_unicode ''aapl'') = Inr rows \<and> rows \<noteq> []
             \<and> \<not> float_eq (resolved_prev rows) (Fin 0)
             \<and> py_round (resolved_prev rows) 4 = Inr r
             \<and> map_of two_bars_quote ''previous_close'' = Some (JFloat r)"
    by blast
  from h1 a h2 b show ?thesis by blast
qed

text \<open>
  C3 as stated has \<open>previous_close != 0\<close> in every built Quote; a close of \<open>2^-17\<close>
  passes the guard and is rounded to \<open>0.0\<close> in the Quote.
\<close>

theorem c3_rounded_previous_close_counterexample:
  "get_quote no_unicode penny_bar clock0 ''shib-usd'' =
     \<lparr>status = 200,
      body = [(''symbol'', JStr ''SHIB-USD''), (''last_price'', JFloat (Fin 0)),
              (''previous_close'', JFloat (Fin 0)), (''change_percent'', JFloat (Fin 0)),
              (''volume'', JInt 3500000), (''volume_formatted'', JStr ''3.50M''),
              (''timestamp'', JStr ''2024-05-06T00:00:00+00:00''),
              (''last_updated_utc'', JStr ''2024-05-06T15:04:05.123456+00:00'')]\<rparr>
   \<and> penny_bar ''SHIB-USD'' = Inr [bar_mon\<lparr>Close := Fin (1 / 131072)\<rparr>]
   \<and> is_binary64 (1 / 131072)"
  by (simp add: get_penny penny_bar_def penny_is_float)

text \<open>
  C6. For every input symbol, the \<open>symbol\<close> field of a successful response is the
  upper-cased input, \<open>symbol.upper()\<close>. For an ASCII symbol this is the input with
  \<open>a\<close> to \<open>z\<close> replaced by \<open>A\<close> to \<open>Z\<close>, whatever the casing of the input: no
  lower-case letter is left, and upper-casing again changes nothing; \<open>aapl\<close> yields
  \<open>AAPL\<close>.
\<close>

theorem c6_symbol_uppercased:
  assumes "build_response tbl history now symbol = Inr d"
  shows "map_of d ''symbol'' = Some (JStr (upper tbl symbol))
         \<and> (list_all is_ascii symbol
            \<longrightarrow> upper tbl symbol = map upper_char symbol
                \<and> \<not> list_ex ascii_lower (upper tbl symbol)
                \<and> upper tbl (upper tbl symbol) = upper tbl symbol)
         \<and> upper tbl ''aapl'' = ''AAPL''"
proof -
  from build_response_Inr [OF assms] obtain hist r_last r_prev r_change i_volume s_volume
    where d: "d = [(''symbol'', JStr (upper tbl symbol)),
                (''last_price'', JFloat r_last),
                (''previous_close'', JFloat r_prev),
                (''change_percent'', JFloat r_change),
                (''volume'', JInt i_volume),
                (''volume_formatted'', JStr s_volume),
                (''timestamp'', JStr (isoformat (resolved_timestamp hist))),
                (''last_updated_utc'', JStr (isoformat (now\<lparr>tzinfo := Some utc\<rparr>)))]"
    by blast
  then have "map_of d ''symbol'' = Some (JStr (upper tbl symbol))" by simp
  then show ?thesis
    using upper_ascii [of symbol tbl] upper_ascii_no_lower [of symbol tbl]
      upper_ascii_idem [of symbol tbl] upper_aapl [of tbl]
    by blast
qed

theorem c6_symbol_uppercased_witness:
  "build_response no_unicode two_bars clock0 ''aapl'' = Inr two_bars_quote
   \<and> list_all is_ascii ''aapl''
   \<and> map_of two_bars_quote ''symbol'' = Some (JStr ''AAPL'')
   \<and> upper no_unicode ''aapl'' = map upper_char ''aapl''
   \<and> \<not> list_ex ascii_lower (upper no_unicode ''aapl'')
   \<and> upper no_unicode (upper no_unicode ''aapl'') = upper no_unicode ''aapl''"
proof -
  note h = build_two_bars
  have a: "list_all is_ascii ''aapl''" by (simp add: is_ascii_def)
  from c6_symbol_uppercased [OF h] a
  have "map_of two_bars_quote ''symbol'' = Some (JStr (upper no_unicode ''aapl''))"
    and "upper no_unicode ''aapl'' = map upper_char ''aapl''"
    and "\<not> list_ex ascii_lower (upper no_unicode ''aapl'')"
    and "upper no_unicode (upper no_unicode ''aapl'') = upper no_unicode ''aapl''"
    by blast+
  with h a show ?thesis by (simp only: upper_aapl simp_thms)
qed

text \<open>
  C7, as the code has it. The status of a failed request follows the class of the exception: every
  exception that is not a \<open>ValueError\<close> gives 502 with an error message and the
  exception text as details, and every \<open>ValueError\<close> gives 404 with an error body. An
  exception of the provider reaches \<open>get_quote\<close> unchanged; not-found and
  zero-previous-close are raised as \<open>ValueError\<close>.
\<close>

theorem c7_error_status_by_exception_class:
  "(build_response tbl history now symbol = Inl exc
      \<longrightarrow> get_quote tbl history now symbol =
            (if is_ValueError exc
             then \<lparr>status = 404, body = [(''error'', JStr (str_exc exc))]\<rparr>
             else \<lparr>status = 502,
                   body = [(''error'', JStr ''Failed to reach Yahoo Finance''),
                           (''details'', JStr (str_exc exc))]\<rparr>))
   \<and> (history (upper tbl symbol) = Inl exc \<longrightarrow> build_response tbl history now symbol = Inl exc)
   \<and> (history (upper tbl symbol) = Inr []
      \<longrightarrow> (\<exists>m. build_response tbl history now symbol = Inl (ValueError m)))
   \<and> (history (upper tbl symbol) = Inr hist \<and> hist \<noteq> [] \<and> float_eq (resolved_prev hist) (Fin 0)
      \<longrightarrow> (\<exists>m. build_response tbl history now symbol = Inl (ValueError m)))"
proof (intro conjI impI)
  assume "build_response tbl history now symbol = Inl exc"
  then show "get_quote tbl history now symbol =
            (if is_ValueError exc
             then \<lparr>status = 404, body = [(''error'', JStr (str_exc exc))]\<rparr>
             else \<lparr>status = 502,
                   body = [(''error'', JStr ''Failed to reach Yahoo Finance''),
                           (''details'', JStr (str_exc exc))]\<rparr>)"
    by (rule get_quote_raise)
next
  assume "history (upper tbl symbol) = Inl exc"
  with build_response_provider_raise [of history tbl symbol exc now]
  show "build_response tbl history now symbol = Inl exc" by simp
next
  assume "history (upper tbl symbol) = Inr []"
  with build_response_empty [of history tbl symbol now]
  show "\<exists>m. build_response tbl history now symbol = Inl (ValueError m)" by blast
next
  assume "history (upper tbl symbol) = Inr hist \<and> hist \<noteq> [] \<and> float_eq (resolved_prev hist) (Fin 0)"
  with build_response_zero_prev [of history tbl symbol hist now]
  show "\<exists>m. build_response tbl history now symbol = Inl (ValueError m)" by blast
qed

theorem c7_error_status_by_exception_class_witness:
  "provider_down (upper no_unicode ''aapl'') = Inl (OtherException ''Connection timed out'')
   \<and> build_response no_unicode provider_down clock0 ''aapl'' = Inl (OtherException ''Connection timed out'')
   \<and> get_quote no_unicode provider_down clock0 ''aapl'' =
        \<lparr>status = 502,
         body = [(''error'', JStr ''Failed to reach Yahoo Finance''),
                 (''details'', JStr ''Connection timed out'')]\<rparr>
   \<and> no_bars (upper no_unicode ''aapl'') = Inr []
   \<and> (\<exists>m. build_response no_unicode no_bars clock0 ''aapl'' = Inl (ValueError m))
   \<and> (zero_prev (upper no_unicode ''aapl'') = Inr [bar_fri\<lparr>Close := Fin 0\<rparr>, bar_mon]
      \<and> [bar_fri\<lparr>Close := Fin 0\<rparr>, bar_mon] \<noteq> []
      \<and> float_eq (resolved_prev [bar_fri\<lparr>Close := Fin 0\<rparr>, bar_mon]) (Fin 0))
   \<and> (\<exists>m. build_response no_unicode zero_prev clock0 ''aapl'' = Inl (ValueError m))"
proof -
  let ?e = "OtherException ''Connection timed out''"
  let ?rows = "[bar_fri\<lparr>Close := Fin 0\<rparr>, bar_mon]"
  have h1: "provider_down (upper no_unicode ''aapl'') = Inl ?e" by (simp add: provider_down_def)
  from c7_error_status_by_exception_class [of no_unicode provider_down clock0 "''aapl''" ?e "[]"] h1
  have h2: "build_response no_unicode provider_down clock0 ''aapl'' = Inl ?e" by blast
  from c7_error_status_by_exception_class [of no_unicode provider_down clock0 "''aapl''" ?e "[]"] h2
  have h3: "get_quote no_unicode provider_down clock0 ''aapl'' =
        \<lparr>status = 502,
         body = [(''error'', JStr ''Failed to reach Yahoo Finance''),
                 (''details'', JStr ''Connection timed out'')]\<rparr>"
    by simp
  have h4: "no_bars (upper no_unicode ''aapl'') = Inr []" by (simp add: no_bars_def)
  from c7_error_status_by_exception_class [of no_unicode no_bars clock0 "''aapl''" ?e "[]"] h4
  have h5: "\<exists>m. build_response no_unicode no_bars clock0 ''aapl'' = Inl (ValueError m)" by blast
  have h6: "zero_prev (upper no_unicode ''aapl'') = Inr ?rows \<and> ?rows \<noteq> []
      \<and> float_eq (resolved_prev ?rows) (Fin 0)"
    by (simp add: zero_prev_def resolved_prev_def)
  from c7_error_status_by_exception_class [of no_unicode zero_prev clock0 "''aapl''" ?e ?rows] h6
  have h7: "\<exists>m. build_response no_unicode zero_prev clock0 ''aapl'' = Inl (ValueError m)" by blast
  from h1 h2 h3 h4 h5 h6 h7 show ?thesis by blast
qed

text \<open>
  C7 as stated sends every exception other than not-found and zero-previous-close to 502;
  a NaN volume makes \<open>int(volume)\<close> raise a \<open>ValueError\<close>, which is answered with 404.
\<close>

theorem c7_nan_volume_counterexample:
  "get_quote no_unicode nan_volume clock0 ''aapl'' =
     \<lparr>status = 404, body = [(''error'', JStr ''cannot convert float NaN to integer'')]\<rparr>
   \<and> nan_volume ''AAPL'' = Inr [bar_fri, bar_mon\<lparr>Volume := NaN\<rparr>]
   \<and> resolved_prev [bar_fri, bar_mon\<lparr>Volume := NaN\<rparr>] = Fin 100"
  using get_quote_raise [OF build_nan_volume]
  by (simp add: nan_volume_def resolved_prev_def bar_fri_def)

text \<open>
  C8. The timestamp of the Quote is the index of the last row, with the UTC zone attached
  when it carries no zone (the calendar fields stay, the text gains \<open>+00:00\<close>) and
  unchanged when it carries one.
\<close>

theorem c8_naive_timestamp_tagged_utc:
  assumes "history (upper tbl symbol) = Inr hist"
    and "build_response tbl history now symbol = Inr d"
  shows "map_of d ''timestamp'' =
           Some (JStr (isoformat (if tzinfo (Index (last hist)) = None
                                  then (Index (last hist))\<lparr>tzinfo := Some utc\<rparr>
                                  else Index (last hist))))
         \<and> (\<exists>l p v. fetch_quote history (upper tbl symbol) =
                Inr (l, p, if tzinfo (Index (last hist)) = None
                           then (Index (last hist))\<lparr>tzinfo := Some utc\<rparr>
                           else Index (last hist), v))
         \<and> (tzinfo (Index (last hist)) = None
            \<longrightarrow> isoformat ((Index (last hist))\<lparr>tzinfo := Some utc\<rparr>)
                  = isoformat (Index (last hist)) @ ''+00:00'')"
proof -
  from build_response_Inr [OF assms(2)] obtain rows r_last r_prev r_change i_volume s_volume
    where h: "history (upper tbl symbol) = Inr rows" and ne: "rows \<noteq> []"
      and nz: "\<not> float_eq (resolved_prev rows) (Fin 0)"
      and d: "d = [(''symbol'', JStr (upper tbl symbol)),
                (''last_price'', JFloat r_last),
                (''previous_close'', JFloat r_prev),
                (''change_percent'', JFloat r_change),
                (''volume'', JInt i_volume),
                (''volume_formatted'', JStr s_volume),
                (''timestamp'', JStr (isoformat (resolved_timestamp rows))),
                (''last_updated_utc'', JStr (isoformat (now\<lparr>tzinfo := Some utc\<rparr>)))]"
    by blast
  from h assms(1) have rows: "rows = hist" by simp
  have t: "resolved_timestamp hist =
             (if tzinfo (Index (last hist)) = None
              then (Index (last hist))\<lparr>tzinfo := Some utc\<rparr> else Index (last hist))"
    by (simp add: resolved_timestamp_def Let_def)
  from d have "map_of d ''timestamp'' = Some (JStr (isoformat (resolved_timestamp hist)))"
    by (simp add: rows)
  then have a: "map_of d ''timestamp'' =
           Some (JStr (isoformat (if tzinfo (Index (last hist)) = None
                                  then (Index (last hist))\<lparr>tzinfo := Some utc\<rparr>
                                  else Index (last hist))))"
    by (simp only: t)
  from fetch_quote_rows [of history "upper tbl symbol" hist] assms(1) ne nz rows
  have "fetch_quote history (upper tbl symbol) =
          Inr (Close (last hist), resolved_prev hist, resolved_timestamp hist, Volume (last hist))"
    by simp
  then have b: "\<exists>l p v. fetch_quote history (upper tbl symbol) =
                Inr (l, p, if tzinfo (Index (last hist)) = None
                           then (Index (last hist))\<lparr>tzinfo := Some utc\<rparr>
                           else Index (last hist), v)"
    by (simp only: t) blast
  from a b isoformat_tag_utc [of "Index (last hist)"] show ?thesis by blast
qed

theorem c8_naive_timestamp_tagged_utc_witness:
  "two_bars (upper no_unicode ''aapl'') = Inr [bar_fri, bar_mon]
   \<and> build_response no_unicode two_bars clock0 ''aapl'' = Inr two_bars_quote
   \<and> tzinfo (Index (last [bar_fri, bar_mon])) = None
   \<and> map_of two_bars_quote ''timestamp'' =
        Some (JStr (isoformat ((Index (last [bar_fri, bar_mon]))\<lparr>tzinfo := Some utc\<rparr>)))
   \<and> isoformat ((Index (last [bar_fri, bar_mon]))\<lparr>tzinfo := Some utc\<rparr>)
        = isoformat (Index (last [bar_fri, bar_mon])) @ ''+00:00''"
proof -
  have h1: "two_bars (upper no_unicode ''aapl'') = Inr [bar_fri, bar_mon]" by (simp add: two_bars_def)
  note h2 = build_two_bars
  have h3: "tzinfo (Index (last [bar_fri, bar_mon])) = None"
    by (simp add: bar_mon_def monday_naive_def)
  from c8_naive_timestamp_tagged_utc
         [of two_bars no_unicode "''aapl''" "[bar_fri, bar_mon]" clock0 two_bars_quote] h1 h2
  have "map_of two_bars_quote ''timestamp'' =
           Some (JStr (isoformat (if tzinfo (Index (last [bar_fri, bar_mon])) = None
                                  then (Index (last [bar_fri, bar_mon]))\<lparr>tzinfo := Some utc\<rparr>
                                  else Index (last [bar_fri, bar_mon]))))"
    and "tzinfo (Index (last [bar_fri, bar_mon])) = None
            \<longrightarrow> isoformat ((Index (last [bar_fri, bar_mon]))\<lparr>tzinfo := Some utc\<rparr>)
                  = isoformat (Index (last [bar_fri, bar_mon])) @ ''+00:00''"
    by blast+
  with h1 h2 h3 show ?thesis by (simp only: if_True simp_thms)
qed

text \<open>
  C9, as the code has it. Every successful response body has exactly the fields \<open>symbol\<close>,
  \<open>last_price\<close>, \<open>previous_close\<close>, \<open>change_percent\<close>, \<open>volume\<close>,
  \<open>volume_formatted\<close>, \<open>timestamp\<close> and \<open>last_updated_utc\<close>; the last two are
  ISO-8601 texts of datetimes that carry a zone, so each ends with its offset from UTC, and
  the offset of \<open>last_updated_utc\<close> is \<open>+00:00\<close>.
\<close>

theorem c9_response_fields:
  assumes "status (get_quote tbl history now symbol) = 200"
  shows "\<exists>r_last r_prev r_change i_volume s_volume t off.
           body (get_quote tbl history now symbol) =
             [(''symbol'', JStr (upper tbl symbol)),
              (''last_price'', JFloat r_last),
              (''previous_close'', JFloat r_prev),
              (''change_percent'', JFloat r_change),
              (''volume'', JInt i_volume),
              (''volume_formatted'', JStr s_volume),
              (''timestamp'', JStr (isoformat t)),
              (''last_updated_utc'', JStr (isoformat (now\<lparr>tzinfo := Some utc\<rparr>)))]
         \<and> tzinfo t = Some off
         \<and> isoformat t = isoformat (t\<lparr>tzinfo := None\<rparr>) @ format_offset (Some off)
         \<and> hd (format_offset (Some off)) = (if off < 0 then CHR ''-'' else CHR ''+'')
         \<and> isoformat (now\<lparr>tzinfo := Some utc\<rparr>)
             = isoformat (now\<lparr>tzinfo := None\<rparr>) @ ''+00:00''"
proof -
  from get_quote_200 [OF assms] obtain d
    where b: "build_response tbl history now symbol = Inr d"
      and g: "body (get_quote tbl history now symbol) = d" by blast
  from build_response_Inr [OF b] obtain hist r_last r_prev r_change i_volume s_volume
    where d: "d = [(''symbol'', JStr (upper tbl symbol)),
                (''last_price'', JFloat r_last),
                (''previous_close'', JFloat r_prev),
                (''change_percent'', JFloat r_change),
                (''volume'', JInt i_volume),
                (''volume_formatted'', JStr s_volume),
                (''timestamp'', JStr (isoformat (resolved_timestamp hist))),
                (''last_updated_utc'', JStr (isoformat (now\<lparr>tzinfo := Some utc\<rparr>)))]"
    by blast
  from resolved_timestamp_aware [of hist] obtain off
    where off: "tzinfo (resolved_timestamp hist) = Some off" by blast
  from g d off isoformat_aware [OF off] format_offset_sign [of off] isoformat_now_utc [of now]
  show ?thesis by blast
qed

theorem c9_response_fields_witness:
  "status (get_quote no_unicode two_bars clock0 ''aapl'') = 200
   \<and> (\<exists>r_last r_prev r_change i_volume s_volume t off.
           body (get_quote no_unicode two_bars clock0 ''aapl'') =
             [(''symbol'', JStr (upper no_unicode ''aapl'')),
              (''last_price'', JFloat r_last),
              (''previous_close'', JFloat r_prev),
              (''change_percent'', JFloat r_change),
              (''volume'', JInt i_volume),
              (''volume_formatted'', JStr s_volume),
              (''timestamp'', JStr (isoformat t)),
              (''last_updated_utc'', JStr (isoformat (clock0\<lparr>tzinfo := Some utc\<rparr>)))]
         \<and> tzinfo t = Some off)"
proof -
  have h: "status (get_quote no_unicode two_bars clock0 ''aapl'') = 200" by (simp add: get_two_bars)
  from c9_response_fields [OF h] h show ?thesis by blast
qed

text \<open>
  C9 as stated names the two time fields \<open>observation_timestamp\<close> and \<open>fetched_at\<close>;
  the response has neither key.
\<close>

theorem c9_field_names_counterexample:
  "status (get_quote no_unicode two_bars clock0 ''aapl'') = 200
   \<and> map fst (body (get_quote no_unicode two_bars clock0 ''aapl'')) =
       [''symbol'', ''last_price'', ''previous_close'', ''change_percent'', ''volume'',
        ''volume_formatted'', ''timestamp'', ''last_updated_utc'']
   \<and> map_of (body (get_quote no_unicode two_bars clock0 ''aapl'')) ''observation_timestamp'' = None
   \<and> map_of (body (get_quote no_unicode two_bars clock0 ''aapl'')) ''fetched_at'' = None"
  by (simp add: get_two_bars two_bars_quote_def)

end
